theory Spec2Isabelle
  imports Complex_Main
begin

section \<open>Hand gesture volume controller: embedding of the source\<close>

text \<open>
  The development embeds three source files: \<^verbatim>\<open>gesture_manager.py\<close> (geometry, pose
  predicates, swipe detection, the recognition cascade), \<^verbatim>\<open>volume_controller.py\<close>
  (finger counting and the per-frame volume mapping) and \<^verbatim>\<open>config_manager.py\<close> (the
  configuration dataclasses).

  Python floats are modelled as the type \<^typ>\<open>real\<close>: every coordinate is a finite number
  and arithmetic is exact. Rounding, overflow of \<^verbatim>\<open>**\<close>, infinities and NaN are outside
  the model. Every Python exception the modelled code can raise is a value of
  \<open>py_error\<close>; a function that can raise returns \<open>py_error + 'a\<close> with \<open>Inl\<close> the
  exception.
\<close>

subsection \<open>Exceptions and sequencing\<close>

datatype py_error = IndexError | ZeroDivisionError | ValueError | TypeError | OverflowError

text \<open>Sequencing of two computations: the first exception raised wins.\<close>

definition bind_r :: "py_error + 'a \<Rightarrow> ('a \<Rightarrow> py_error + 'b) \<Rightarrow> py_error + 'b" where
  "bind_r m f = (case m of Inl e \<Rightarrow> Inl e | Inr v \<Rightarrow> f v)"

text \<open>\<^verbatim>\<open>xs[i]\<close> for a non-negative constant index: IndexError out of range.\<close>

definition getitem :: "'a list \<Rightarrow> nat \<Rightarrow> py_error + 'a" where
  "getitem xs i = (if i < length xs then Inr (xs ! i) else Inl IndexError)"

text \<open>
  \<^verbatim>\<open>a and b\<close> on booleans: \<open>b\<close> is evaluated only when \<open>a\<close> is true, so an exception
  of \<open>b\<close> is not raised when \<open>a\<close> is false.
\<close>

definition and_r :: "py_error + bool \<Rightarrow> py_error + bool \<Rightarrow> py_error + bool" where
  "and_r a b = bind_r a (\<lambda>v. if v then b else Inr False)"

definition not_r :: "py_error + bool \<Rightarrow> py_error + bool" where
  "not_r a = bind_r a (\<lambda>v. Inr (\<not> v))"

text \<open>
  A list display \<^verbatim>\<open>[e1, ..., en]\<close> evaluates its elements left to right, all of them,
  before the list exists.
\<close>

fun list_r :: "(py_error + 'a) list \<Rightarrow> py_error + 'a list" where
  "list_r [] = Inr []"
| "list_r (m # ms) = bind_r m (\<lambda>v. bind_r (list_r ms) (\<lambda>vs. Inr (v # vs)))"

text \<open>\<^verbatim>\<open>sum\<close> over a list of booleans counts the true ones.\<close>

definition sum_bools :: "bool list \<Rightarrow> nat" where
  "sum_bools bs = sum_list (map (\<lambda>b. if b then 1 else 0) bs)"

subsection \<open>Landmarks and gesture types\<close>

record landmark =
  lm_x :: real
  lm_y :: real

datatype GestureType =
    PINCH | OPEN_HAND | PEACE | THUMBS_UP | ROCK | OK_SIGN | PALM
  | SWIPE_LEFT | SWIPE_RIGHT | SWIPE_UP | SWIPE_DOWN | POINT | FIST | UNKNOWN

text \<open>
  The fields \<^verbatim>\<open>GestureManager.__init__\<close> sets. \<open>hand_positions\<close> is the deque created
  with \<^verbatim>\<open>maxlen=history_length\<close>; \<open>gesture_confidence\<close> is the (always empty) dict.
\<close>

record GestureManager =
  history_length :: nat
  hand_positions :: "(real \<times> real) list"
  gesture_confidence :: "(string \<times> real) list"
  swipe_threshold :: real
  min_gesture_frames :: nat

text \<open>\<^verbatim>\<open>deque(maxlen=n)\<close> raises ValueError for a negative \<open>n\<close>.\<close>

definition GestureManager_init :: "int \<Rightarrow> py_error + GestureManager" where
  "GestureManager_init hl =
     (if hl < 0 then Inl ValueError
      else Inr \<lparr>history_length = nat hl, hand_positions = [], gesture_confidence = [],
                swipe_threshold = 0.1, min_gesture_frames = 3\<rparr>)"

subsection \<open>Geometry\<close>

definition calculate_distance :: "landmark \<Rightarrow> landmark \<Rightarrow> real" where
  "calculate_distance point1 point2 =
     sqrt ((lm_x point1 - lm_x point2)\<^sup>2 + (lm_y point1 - lm_y point2)\<^sup>2)"



subsection \<open>Pose predicates\<close>

definition is_finger_raised :: "landmark \<Rightarrow> landmark \<Rightarrow> bool" where
  "is_finger_raised finger_tip finger_pip = (lm_y finger_tip < lm_y finger_pip)"

text \<open>
  The call \<^verbatim>\<open>self.is_finger_raised(landmarks[t], landmarks[p])\<close>: both subscripts are
  evaluated, tip first, before the call.
\<close>

definition raised_at :: "landmark list \<Rightarrow> nat \<Rightarrow> nat \<Rightarrow> py_error + bool" where
  "raised_at landmarks t p =
     bind_r (getitem landmarks t) (\<lambda>finger_tip.
     bind_r (getitem landmarks p) (\<lambda>finger_pip.
     Inr (is_finger_raised finger_tip finger_pip)))"

definition finger_tips :: "nat list" where
  "finger_tips = [4, 8, 12, 16, 20]"

definition finger_pips :: "nat list" where
  "finger_pips = [3, 6, 10, 14, 18]"

text \<open>
  The loop of \<^verbatim>\<open>count_raised_fingers\<close> over the five (tip, pip) index pairs, with the
  running count. The \<open>handedness\<close> parameter is accepted and never read.
\<close>

fun count_raised_loop :: "landmark list \<Rightarrow> (nat \<times> nat) list \<Rightarrow> nat \<Rightarrow> py_error + nat" where
  "count_raised_loop landmarks [] raised = Inr raised"
| "count_raised_loop landmarks ((t, p) # rest) raised =
     bind_r (raised_at landmarks t p) (\<lambda>r.
       count_raised_loop landmarks rest (if r then raised + 1 else raised))"

definition count_raised_fingers :: "landmark list \<Rightarrow> string \<Rightarrow> py_error + nat" where
  "count_raised_fingers landmarks handedness =
     count_raised_loop landmarks (zip finger_tips finger_pips) 0"

definition detect_peace_sign :: "landmark list \<Rightarrow> string \<Rightarrow> py_error + bool" where
  "detect_peace_sign landmarks handedness =
     and_r (raised_at landmarks 8 6)
    (and_r (raised_at landmarks 12 10)
    (and_r (not_r (raised_at landmarks 16 14))
           (not_r (raised_at landmarks 20 18))))"

definition detect_thumbs_up :: "landmark list \<Rightarrow> py_error + bool" where
  "detect_thumbs_up landmarks =
     bind_r (getitem landmarks 4) (\<lambda>thumb_tip.
     bind_r (getitem landmarks 3) (\<lambda>thumb_pip.
     bind_r (getitem landmarks 9) (\<lambda>middle_finger_mcp.
     Inr (lm_y thumb_tip < lm_y thumb_pip \<and>
          lm_y thumb_tip < lm_y middle_finger_mcp \<and>
          calculate_distance thumb_tip thumb_pip > 0.05))))"

definition detect_rock_gesture :: "landmark list \<Rightarrow> py_error + bool" where
  "detect_rock_gesture landmarks =
     and_r (raised_at landmarks 8 6)
    (and_r (raised_at landmarks 20 18)
    (and_r (not_r (raised_at landmarks 12 10))
           (not_r (raised_at landmarks 16 14))))"

definition detect_ok_sign :: "landmark list \<Rightarrow> py_error + bool" where
  "detect_ok_sign landmarks =
     bind_r (getitem landmarks 4) (\<lambda>p4.
     bind_r (getitem landmarks 8) (\<lambda>p8.
     let thumb_index_distance = calculate_distance p4 p8 in
     bind_r (list_r [raised_at landmarks 12 10,
                     raised_at landmarks 16 14,
                     raised_at landmarks 20 18]) (\<lambda>bs.
     let other_fingers_up = (sum_bools bs \<ge> 2) in
     Inr (thumb_index_distance < 0.05 \<and> other_fingers_up))))"

definition detect_pointing :: "landmark list \<Rightarrow> py_error + bool" where
  "detect_pointing landmarks =
     and_r (raised_at landmarks 8 6)
    (and_r (not_r (raised_at landmarks 12 10))
    (and_r (not_r (raised_at landmarks 16 14))
           (not_r (raised_at landmarks 20 18))))"

text \<open>
  \<^verbatim>\<open>detect_palm_open\<close>: the fifth summand is the thumb, tested by
  \<^verbatim>\<open>landmarks[4].y < landmarks[3].y\<close>.
\<close>

definition detect_palm_open :: "landmark list \<Rightarrow> py_error + bool" where
  "detect_palm_open landmarks =
     bind_r (list_r [raised_at landmarks 8 6,
                     raised_at landmarks 12 10,
                     raised_at landmarks 16 14,
                     raised_at landmarks 20 18,
                     bind_r (getitem landmarks 4) (\<lambda>p4.
                     bind_r (getitem landmarks 3) (\<lambda>p3.
                     Inr (lm_y p4 < lm_y p3)))]) (\<lambda>bs.
     let raised_count = sum_bools bs in Inr (raised_count \<ge> 4))"

definition detect_fist :: "landmark list \<Rightarrow> py_error + bool" where
  "detect_fist landmarks =
     bind_r (list_r [raised_at landmarks 8 6,
                     raised_at landmarks 12 10,
                     raised_at landmarks 16 14,
                     raised_at landmarks 20 18]) (\<lambda>bs.
     let raised_count = sum_bools bs in Inr (raised_count = 0))"

subsection \<open>Swipe detection\<close>

text \<open>
  \<^verbatim>\<open>detect_swipe\<close>. Positions are pairs. The result \<open>None\<close> is Python's
  \<^verbatim>\<open>None\<close>. The two divisions by \<open>frame_width\<close> raise on zero.
\<close>

definition detect_swipe ::
  "GestureManager \<Rightarrow> real \<times> real \<Rightarrow> (real \<times> real) list \<Rightarrow> real
     \<Rightarrow> py_error + GestureType option" where
  "detect_swipe self current_position history_positions frame_width =
     (if length history_positions < min_gesture_frames self then Inr None
      else bind_r (getitem history_positions 0) (\<lambda>oldest_position.
        let displacement_x = fst current_position - fst oldest_position;
            displacement_y = snd current_position - snd oldest_position
        in if frame_width = 0 then Inl ZeroDivisionError
           else
             let displacement_x = displacement_x / frame_width;
                 displacement_y = displacement_y / frame_width
             in if \<bar>displacement_x\<bar> > swipe_threshold self
                   \<and> \<bar>displacement_x\<bar> > \<bar>displacement_y\<bar>
                then Inr (Some (if displacement_x > 0 then SWIPE_RIGHT else SWIPE_LEFT))
                else if \<bar>displacement_y\<bar> > swipe_threshold self
                        \<and> \<bar>displacement_y\<bar> > \<bar>displacement_x\<bar>
                then Inr (Some (if displacement_y < 0 then SWIPE_UP else SWIPE_DOWN))
                else Inr None))"

subsection \<open>The recognition cascade\<close>

text \<open>
  \<^verbatim>\<open>recognize_gesture\<close>: each \<^verbatim>\<open>if ...: return\<close> is one level of the nesting, in
  the order of the source.
\<close>

definition recognize_gesture ::
  "GestureManager \<Rightarrow> landmark list \<Rightarrow> string \<Rightarrow> real \<times> real \<Rightarrow> (real \<times> real) list \<Rightarrow> real
     \<Rightarrow> py_error + GestureType" where
  "recognize_gesture self landmarks handedness hand_center history_positions frame_width =
     bind_r (detect_thumbs_up landmarks) (\<lambda>b1. if b1 then Inr THUMBS_UP else
     bind_r (detect_peace_sign landmarks handedness) (\<lambda>b2. if b2 then Inr PEACE else
     bind_r (detect_rock_gesture landmarks) (\<lambda>b3. if b3 then Inr ROCK else
     bind_r (detect_ok_sign landmarks) (\<lambda>b4. if b4 then Inr OK_SIGN else
     bind_r (detect_pointing landmarks) (\<lambda>b5. if b5 then Inr POINT else
     bind_r (detect_palm_open landmarks) (\<lambda>b6. if b6 then Inr PALM else
     bind_r (detect_fist landmarks) (\<lambda>b7. if b7 then Inr FIST else
     bind_r (detect_swipe self hand_center history_positions frame_width) (\<lambda>swipe.
       case swipe of
         Some g \<Rightarrow> Inr g
       | None \<Rightarrow>
           bind_r (getitem landmarks 4) (\<lambda>p4.
           bind_r (getitem landmarks 8) (\<lambda>p8.
           let thumb_index_dist = calculate_distance p4 p8 in
           if thumb_index_dist < 0.05 then Inr PINCH
           else if thumb_index_dist > 0.15 then Inr OPEN_HAND
           else Inr UNKNOWN))))))))))"

text \<open>
  \<^verbatim>\<open>recognize_gesture\<close> together with the two mutable objects the call can reach: the
  manager (\<open>self\<close>, which owns \<open>hand_positions\<close>) and the caller's
  \<open>history_positions\<close>, returned as the call leaves them. No statement of the method,
  or of a method it calls, assigns an attribute or calls a mutating method.
\<close>

definition recognize_gesture_st ::
  "GestureManager \<times> (real \<times> real) list \<Rightarrow> landmark list \<Rightarrow> string \<Rightarrow> real \<times> real \<Rightarrow> real
     \<Rightarrow> (py_error + GestureType) \<times> GestureManager \<times> (real \<times> real) list" where
  "recognize_gesture_st st landmarks handedness hand_center frame_width =
     (case st of (self, history_positions) \<Rightarrow>
        (recognize_gesture self landmarks handedness hand_center history_positions frame_width,
         self, history_positions))"

subsection \<open>Volume controller\<close>

text \<open>
  \<^verbatim>\<open>deque.append\<close> on a deque with \<^verbatim>\<open>maxlen\<close>: the element goes to the right end and,
  when the length then exceeds \<^verbatim>\<open>maxlen\<close>, the leftmost element is dropped (with
  \<^verbatim>\<open>maxlen = 0\<close> the deque stays empty).
\<close>

definition deque_append :: "nat \<Rightarrow> 'a list \<Rightarrow> 'a \<Rightarrow> 'a list" where
  "deque_append maxlen xs v = (let ys = xs @ [v] in if length ys > maxlen then tl ys else ys)"

text \<open>
  The controller's mutable state: the two deques, their common \<^verbatim>\<open>maxlen\<close>
  (\<^verbatim>\<open>smoothing_window\<close> of \<^verbatim>\<open>__init__\<close>), and the arguments \<^verbatim>\<open>self.set_volume\<close> has been
  called with, oldest first. The camera, MediaPipe and the drawing calls are external.
\<close>

record HandGestureVolumeController =
  deque_maxlen :: nat
  distance_history :: "real list"
  fingers_history :: "nat list"
  set_volume_calls :: "real list"

definition HandGestureVolumeController_init :: "int \<Rightarrow> py_error + HandGestureVolumeController" where
  "HandGestureVolumeController_init smoothing_window =
     (if smoothing_window < 0 then Inl ValueError
      else Inr \<lparr>deque_maxlen = nat smoothing_window, distance_history = [],
                fingers_history = [], set_volume_calls = []\<rparr>)"

definition fingers_tips :: "nat list" where
  "fingers_tips = [4, 8, 12, 16, 20]"

definition fingers_pip :: "nat list" where
  "fingers_pip = [3, 6, 10, 14, 18]"

text \<open>The loop \<^verbatim>\<open>for i in range(1, 5)\<close> of \<^verbatim>\<open>count_fingers\<close>, with the running count.\<close>

fun count_fingers_loop :: "landmark list \<Rightarrow> (nat \<times> nat) list \<Rightarrow> nat \<Rightarrow> py_error + nat" where
  "count_fingers_loop hand_landmarks [] fingers_raised = Inr fingers_raised"
| "count_fingers_loop hand_landmarks ((t, p) # rest) fingers_raised =
     bind_r (getitem hand_landmarks t) (\<lambda>tip.
     bind_r (getitem hand_landmarks p) (\<lambda>pip.
       count_fingers_loop hand_landmarks rest
         (if lm_y tip < lm_y pip then fingers_raised + 1 else fingers_raised)))"

definition count_fingers :: "landmark list \<Rightarrow> string \<Rightarrow> py_error + nat" where
  "count_fingers hand_landmarks handedness =
     bind_r (getitem hand_landmarks (fingers_tips ! 0)) (\<lambda>tip.
     bind_r (getitem hand_landmarks (fingers_pip ! 0)) (\<lambda>pip.
       let fingers_raised =
             (if handedness = ''Right''
              then (if lm_x tip < lm_x pip then 1 else 0)
              else (if lm_x tip > lm_x pip then 1 else 0))
       in count_fingers_loop hand_landmarks (tl (zip fingers_tips fingers_pip)) fingers_raised))"

text \<open>
  The body of the loop of \<^verbatim>\<open>process_frame\<close> for one detected hand. \<open>handedness_info\<close>
  is the list of the labels of \<^verbatim>\<open>handedness_info.classification\<close>. The division by
  \<^verbatim>\<open>len(self.distance_history)\<close> raises on an empty deque. The call of
  \<^verbatim>\<open>self.set_volume\<close> is recorded; an exception of the actuator is caught by the source.
\<close>

definition process_frame_hand ::
  "HandGestureVolumeController \<Rightarrow> landmark list \<Rightarrow> string list
     \<Rightarrow> py_error + (HandGestureVolumeController \<times> real)" where
  "process_frame_hand self hand_landmarks handedness_info =
     bind_r (getitem hand_landmarks 4) (\<lambda>thumb_tip.
     bind_r (getitem hand_landmarks 8) (\<lambda>index_tip.
     let distance = calculate_distance thumb_tip index_tip;
         dh = deque_append (deque_maxlen self) (distance_history self) distance
     in if length dh = 0 then Inl ZeroDivisionError
        else
          let smoothed_distance = sum_list dh / real (length dh) in
          bind_r (getitem handedness_info 0) (\<lambda>handedness_label.
          bind_r (count_fingers hand_landmarks handedness_label) (\<lambda>fingers_count.
          let fh = deque_append (deque_maxlen self) (fingers_history self) fingers_count;
              volume_level = max 0 (min 100 ((smoothed_distance - 0.02) / (0.3 - 0.02) * 100))
          in Inr (self\<lparr>distance_history := dh, fingers_history := fh,
                        set_volume_calls := set_volume_calls self @ [volume_level]\<rparr>,
                  volume_level)))))"

text \<open>The loop over the zipped hands; \<open>volume_level\<close> starts as \<^verbatim>\<open>None\<close>.\<close>

fun process_frame_loop ::
  "HandGestureVolumeController \<Rightarrow> (landmark list \<times> string list) list \<Rightarrow> real option
     \<Rightarrow> py_error + (HandGestureVolumeController \<times> real option)" where
  "process_frame_loop self [] volume_level = Inr (self, volume_level)"
| "process_frame_loop self ((hand_landmarks, handedness_info) # rest) volume_level =
     bind_r (process_frame_hand self hand_landmarks handedness_info) (\<lambda>r.
       process_frame_loop (fst r) rest (Some (snd r)))"

text \<open>
  \<^verbatim>\<open>process_frame\<close>, from the result of the hand detector on: the two lists are
  \<^verbatim>\<open>results.multi_hand_landmarks\<close> and \<^verbatim>\<open>results.multi_handedness\<close> (\<^verbatim>\<open>None\<close> and the
  empty list are both falsy and both \<open>[]\<close> here). The second component of the result
  is the returned \<open>volume_level\<close>.
\<close>

definition process_frame ::
  "HandGestureVolumeController \<Rightarrow> landmark list list \<Rightarrow> string list list
     \<Rightarrow> py_error + (HandGestureVolumeController \<times> real option)" where
  "process_frame self multi_hand_landmarks multi_handedness =
     (if multi_hand_landmarks \<noteq> [] \<and> multi_handedness \<noteq> []
      then process_frame_loop self (zip multi_hand_landmarks multi_handedness) None
      else Inr (self, None))"

subsection \<open>Configuration\<close>

text \<open>
  The dataclass \<^verbatim>\<open>VolumeConfig\<close>. A dataclass does not check the annotated types; the
  fields hold the numbers passed.
\<close>

record VolumeConfig =
  min_distance :: real
  max_distance :: real
  smoothing_window :: real
  sensitivity :: real
  min_change_threshold :: real

definition VolumeConfig_fields :: "string list" where
  "VolumeConfig_fields =
     [''min_distance'', ''max_distance'', ''smoothing_window'', ''sensitivity'',
      ''min_change_threshold'']"

text \<open>\<^verbatim>\<open>kwargs.get(k, default)\<close> on the keyword arguments of a call.\<close>

definition kwarg :: "(string \<times> real) list \<Rightarrow> string \<Rightarrow> real \<Rightarrow> real" where
  "kwarg kwargs k d = (case map_of kwargs k of Some v \<Rightarrow> v | None \<Rightarrow> d)"

text \<open>
  The generated \<^verbatim>\<open>__init__\<close>, called as \<^verbatim>\<open>VolumeConfig(**kwargs)\<close> (as
  \<^verbatim>\<open>_update_config_from_dict\<close> does): a keyword that is no field raises TypeError; an
  omitted field takes its default. There is no \<^verbatim>\<open>__post_init__\<close>.
\<close>

definition VolumeConfig_init :: "(string \<times> real) list \<Rightarrow> py_error + VolumeConfig" where
  "VolumeConfig_init kwargs =
     (if list_ex (\<lambda>k. k \<notin> set VolumeConfig_fields) (map fst kwargs) then Inl TypeError
      else Inr \<lparr>min_distance = kwarg kwargs ''min_distance'' 0.02,
                max_distance = kwarg kwargs ''max_distance'' 0.3,
                smoothing_window = kwarg kwargs ''smoothing_window'' 5,
                sensitivity = kwarg kwargs ''sensitivity'' 1.0,
                min_change_threshold = kwarg kwargs ''min_change_threshold'' 2.0\<rparr>)"

subsection \<open>The specification's wording, for comparison with the code\<close>

text \<open>
  The definitions of this subsection follow the words of the specification, not the
  source: the pose rules of its section 4.2 as independent predicates on a landmark
  sequence, the ordered list of (predicate, label) pairs with first match wins, the
  handedness-mirrored thumb test, and the bounds a configuration is to satisfy.
\<close>

definition raised :: "landmark list \<Rightarrow> nat \<Rightarrow> nat \<Rightarrow> bool" where
  "raised lms t p = (lm_y (lms ! t) < lm_y (lms ! p))"

definition thumbs_up_rule :: "landmark list \<Rightarrow> bool" where
  "thumbs_up_rule lms =
     (lm_y (lms ! 4) < lm_y (lms ! 3) \<and> lm_y (lms ! 4) < lm_y (lms ! 9) \<and>
      calculate_distance (lms ! 4) (lms ! 3) > 0.05)"

definition peace_rule :: "landmark list \<Rightarrow> bool" where
  "peace_rule lms =
     (raised lms 8 6 \<and> raised lms 12 10 \<and> \<not> raised lms 16 14 \<and> \<not> raised lms 20 18)"

definition rock_rule :: "landmark list \<Rightarrow> bool" where
  "rock_rule lms =
     (raised lms 8 6 \<and> raised lms 20 18 \<and> \<not> raised lms 12 10 \<and> \<not> raised lms 16 14)"

definition ok_sign_rule :: "landmark list \<Rightarrow> bool" where
  "ok_sign_rule lms =
     (calculate_distance (lms ! 4) (lms ! 8) < 0.05 \<and>
      sum_bools [raised lms 12 10, raised lms 16 14, raised lms 20 18] \<ge> 2)"

definition pointing_rule :: "landmark list \<Rightarrow> bool" where
  "pointing_rule lms =
     (raised lms 8 6 \<and> \<not> raised lms 12 10 \<and> \<not> raised lms 16 14 \<and> \<not> raised lms 20 18)"

definition palm_rule :: "landmark list \<Rightarrow> bool" where
  "palm_rule lms =
     (sum_bools [raised lms 8 6, raised lms 12 10, raised lms 16 14, raised lms 20 18,
                 raised lms 4 3] \<ge> 4)"

definition fist_rule :: "landmark list \<Rightarrow> bool" where
  "fist_rule lms =
     (sum_bools [raised lms 8 6, raised lms 12 10, raised lms 16 14, raised lms 20 18] = 0)"

definition pose_rules :: "((landmark list \<Rightarrow> bool) \<times> GestureType) list" where
  "pose_rules =
     [(thumbs_up_rule, THUMBS_UP), (peace_rule, PEACE), (rock_rule, ROCK),
      (ok_sign_rule, OK_SIGN), (pointing_rule, POINT), (palm_rule, PALM),
      (fist_rule, FIST)]"

fun first_match :: "(('a \<Rightarrow> bool) \<times> 'b) list \<Rightarrow> 'a \<Rightarrow> 'b option" where
  "first_match [] v = None"
| "first_match ((pr, label) # rules) v = (if pr v then Some label else first_match rules v)"

definition fallback_rule :: "landmark list \<Rightarrow> GestureType" where
  "fallback_rule lms =
     (let d = calculate_distance (lms ! 4) (lms ! 8)
      in if d < 0.05 then PINCH else if d > 0.15 then OPEN_HAND else UNKNOWN)"

text \<open>
  The fusion order of the specification: the pose rules first, then the swipe check,
  then the pinch / open-hand fallback.
\<close>

definition cascade_spec ::
  "GestureManager \<Rightarrow> landmark list \<Rightarrow> real \<times> real \<Rightarrow> (real \<times> real) list \<Rightarrow> real
     \<Rightarrow> py_error + GestureType" where
  "cascade_spec self lms hand_center history_positions frame_width =
     (case first_match pose_rules lms of
        Some g \<Rightarrow> Inr g
      | None \<Rightarrow>
          (case detect_swipe self hand_center history_positions frame_width of
             Inl e \<Rightarrow> Inl e
           | Inr (Some g) \<Rightarrow> Inr g
           | Inr None \<Rightarrow> Inr (fallback_rule lms)))"

text \<open>
  The volume of a window of distances, in the specification's words: the arithmetic mean,
  mapped affinely from \<open>[0.02, 0.3]\<close> to \<open>[0, 100]\<close>, clamped at both ends.
\<close>

definition volume_of_window :: "real list \<Rightarrow> real" where
  "volume_of_window w =
     max 0 (min 100 ((sum_list w / real (length w) - 0.02) / (0.3 - 0.02) * 100))"

text \<open>
  The thumb test of the specification: by \<open>x\<close>, tip against pip, the direction
  mirrored between the two hands; and the palm rule as it would read with that test.
\<close>

definition thumb_raised_by_x :: "string \<Rightarrow> landmark list \<Rightarrow> bool" where
  "thumb_raised_by_x handedness lms =
     (if handedness = ''Right'' then lm_x (lms ! 4) < lm_x (lms ! 3)
      else lm_x (lms ! 4) > lm_x (lms ! 3))"

definition palm_rule_by_x :: "string \<Rightarrow> landmark list \<Rightarrow> bool" where
  "palm_rule_by_x handedness lms =
     (sum_bools [raised lms 8 6, raised lms 12 10, raised lms 16 14, raised lms 20 18,
                 thumb_raised_by_x handedness lms] \<ge> 4)"

text \<open>Mirroring an observation: every \<open>x\<close> reflected in the unit frame, the label swapped.\<close>

definition reflect_x :: "landmark \<Rightarrow> landmark" where
  "reflect_x p = p\<lparr>lm_x := 1 - lm_x p\<rparr>"

definition swap_handedness :: "string \<Rightarrow> string" where
  "swap_handedness handedness = (if handedness = ''Right'' then ''Left'' else ''Right'')"

text \<open>The bounds the specification asks a configuration to satisfy.\<close>

definition config_in_bounds :: "VolumeConfig \<Rightarrow> bool" where
  "config_in_bounds c =
     (0 \<le> min_distance c \<and> 0 \<le> max_distance c \<and> min_distance c < max_distance c \<and>
      1 \<le> smoothing_window c)"

text \<open>A hand written as 21 coordinate pairs.\<close>

definition mk_hand :: "(real \<times> real) list \<Rightarrow> landmark list" where
  "mk_hand ps = map (\<lambda>q. \<lparr>lm_x = fst q, lm_y = snd q\<rparr>) ps"

subsection \<open>Concrete inputs\<close>

text \<open>The manager \<^verbatim>\<open>GestureManager()\<close> builds with the default history length.\<close>

definition default_manager_state :: GestureManager where
  "default_manager_state =
     \<lparr>history_length = 5, hand_positions = [], gesture_confidence = [],
      swipe_threshold = 0.1, min_gesture_frames = 3\<rparr>"

text \<open>
  A hand with the thumb tip (4) above its pip (3) and above the middle-finger base (9),
  the thumb extended by 0.2.
\<close>

definition hand_thumbs_up :: "landmark list" where
  "hand_thumbs_up = mk_hand
     [(0.5, 0.9), (0.5, 0.8), (0.5, 0.7), (0.5, 0.5), (0.5, 0.3),
      (0.5, 0.5), (0.5, 0.5), (0.5, 0.5), (0.5, 0.5),
      (0.5, 0.6), (0.5, 0.5), (0.5, 0.5), (0.5, 0.5),
      (0.5, 0.5), (0.5, 0.5), (0.5, 0.5), (0.5, 0.5),
      (0.5, 0.5), (0.5, 0.5), (0.5, 0.5), (0.5, 0.5)]"

text \<open>
  A hand with only the middle finger raised (tip 12 above pip 10) and the thumb tip 0.1
  away from the index tip.
\<close>

definition hand_middle_only :: "landmark list" where
  "hand_middle_only = mk_hand
     [(0.5, 0.5), (0.5, 0.5), (0.5, 0.5), (0.5, 0.5), (0.4, 0.5),
      (0.5, 0.5), (0.5, 0.5), (0.5, 0.5), (0.5, 0.5),
      (0.5, 0.5), (0.5, 0.5), (0.5, 0.5), (0.5, 0.3),
      (0.5, 0.5), (0.5, 0.5), (0.5, 0.5), (0.5, 0.5),
      (0.5, 0.5), (0.5, 0.5), (0.5, 0.5), (0.5, 0.5)]"

text \<open>
  A hand with the thumb tip 0.16 left of the index tip (half of the volume range) and
  one with the two tips 0.02 apart (the lower end of the range).
\<close>

definition hand_half :: "landmark list" where
  "hand_half = mk_hand
     [(0.5, 0.5), (0.5, 0.5), (0.5, 0.5), (0.5, 0.5), (0.34, 0.5),
      (0.5, 0.5), (0.5, 0.5), (0.5, 0.5), (0.5, 0.5),
      (0.5, 0.5), (0.5, 0.5), (0.5, 0.5), (0.5, 0.5),
      (0.5, 0.5), (0.5, 0.5), (0.5, 0.5), (0.5, 0.5),
      (0.5, 0.5), (0.5, 0.5), (0.5, 0.5), (0.5, 0.5)]"

definition hand_pinch :: "landmark list" where
  "hand_pinch = mk_hand
     [(0.5, 0.5), (0.5, 0.5), (0.5, 0.5), (0.5, 0.5), (0.52, 0.5),
      (0.5, 0.5), (0.5, 0.5), (0.5, 0.5), (0.5, 0.5),
      (0.5, 0.5), (0.5, 0.5), (0.5, 0.5), (0.5, 0.5),
      (0.5, 0.5), (0.5, 0.5), (0.5, 0.5), (0.5, 0.5),
      (0.5, 0.5), (0.5, 0.5), (0.5, 0.5), (0.5, 0.5)]"

text \<open>
  The controller \<^verbatim>\<open>HandGestureVolumeController()\<close> builds, and the same controller
  after one and after two frames showing \<open>hand_half\<close> as a right hand.
\<close>

definition controller0 :: HandGestureVolumeController where
  "controller0 =
     \<lparr>deque_maxlen = 5, distance_history = [], fingers_history = [],
      set_volume_calls = []\<rparr>"

definition controller1 :: HandGestureVolumeController where
  "controller1 =
     \<lparr>deque_maxlen = 5, distance_history = [0.16], fingers_history = [1],
      set_volume_calls = [50]\<rparr>"

definition controller2 :: HandGestureVolumeController where
  "controller2 =
     \<lparr>deque_maxlen = 5, distance_history = [0.16, 0.16], fingers_history = [1, 1],
      set_volume_calls = [50, 50]\<rparr>"

text \<open>A controller whose window is full, with one sample that is not 0.02 at its left end.\<close>

definition controller_low :: HandGestureVolumeController where
  "controller_low =
     \<lparr>deque_maxlen = 5, distance_history = [0.3, 0.02, 0.02, 0.02, 0.02],
      fingers_history = [0, 0, 0, 0, 0], set_volume_calls = [100, 80, 60, 40, 20]\<rparr>"

text \<open>The configuration \<^verbatim>\<open>VolumeConfig()\<close> builds.\<close>

definition default_volume_config :: VolumeConfig where
  "default_volume_config =
     \<lparr>min_distance = 0.02, max_distance = 0.3, smoothing_window = 5, sensitivity = 1.0,
      min_change_threshold = 2.0\<rparr>"

text \<open>
  A hand with index, middle and ring finger raised, the little finger not, and the thumb
  tip straight above its pip (same \<open>x\<close>, smaller \<open>y\<close>).
\<close>

definition hand_palm :: "landmark list" where
  "hand_palm = mk_hand
     [(0.5, 0.9), (0.5, 0.8), (0.5, 0.7), (0.5, 0.5), (0.5, 0.3),
      (0.5, 0.5), (0.5, 0.5), (0.5, 0.5), (0.6, 0.3),
      (0.5, 0.5), (0.5, 0.5), (0.5, 0.5), (0.5, 0.3),
      (0.5, 0.5), (0.5, 0.5), (0.5, 0.5), (0.5, 0.3),
      (0.5, 0.5), (0.5, 0.5), (0.5, 0.5), (0.5, 0.5)]"

section \<open>Properties\<close>

subsection \<open>Auxiliary facts\<close>

lemma bind_r_Inr [simp]: "bind_r (Inr v) f = f v"
  by (simp add: bind_r_def)

lemma bind_r_Inl [simp]: "bind_r (Inl e) f = Inl e"
  by (simp add: bind_r_def)

lemma getitem_in_range: "i < length xs \<Longrightarrow> getitem xs i = Inr (xs ! i)"
  by (simp add: getitem_def)

lemma default_manager_init: "GestureManager_init 5 = Inr default_manager_state"
  by (simp add: GestureManager_init_def default_manager_state_def)

lemma default_manager:
  "GestureManager_init hl = Inr self \<Longrightarrow>
     swipe_threshold self = 0.1 \<and> min_gesture_frames self = 3"
  by (auto simp: GestureManager_init_def split: if_splits)

text \<open>On at least 21 landmarks every pose predicate of the source returns, and returns
  what the corresponding rule of the specification says.\<close>

lemma raised_at_in_range:
  "t < length lms \<Longrightarrow> p < length lms \<Longrightarrow> raised_at lms t p = Inr (raised lms t p)"
  by (simp add: raised_at_def raised_def getitem_in_range is_finger_raised_def)

lemma detect_thumbs_up_21:
  "21 \<le> length lms \<Longrightarrow> detect_thumbs_up lms = Inr (thumbs_up_rule lms)"
  by (simp add: detect_thumbs_up_def thumbs_up_rule_def getitem_in_range)

lemma detect_peace_sign_21:
  "21 \<le> length lms \<Longrightarrow> detect_peace_sign lms h = Inr (peace_rule lms)"
  by (simp add: detect_peace_sign_def peace_rule_def raised_at_in_range and_r_def not_r_def)

lemma detect_rock_gesture_21:
  "21 \<le> length lms \<Longrightarrow> detect_rock_gesture lms = Inr (rock_rule lms)"
  by (simp add: detect_rock_gesture_def rock_rule_def raised_at_in_range and_r_def not_r_def)

lemma detect_ok_sign_21:
  "21 \<le> length lms \<Longrightarrow> detect_ok_sign lms = Inr (ok_sign_rule lms)"
  by (simp add: detect_ok_sign_def ok_sign_rule_def raised_at_in_range getitem_in_range Let_def)

lemma detect_pointing_21:
  "21 \<le> length lms \<Longrightarrow> detect_pointing lms = Inr (pointing_rule lms)"
  by (simp add: detect_pointing_def pointing_rule_def raised_at_in_range and_r_def not_r_def)

lemma detect_palm_open_21:
  "21 \<le> length lms \<Longrightarrow> detect_palm_open lms = Inr (palm_rule lms)"
  by (simp add: detect_palm_open_def palm_rule_def raised_at_in_range getitem_in_range
      Let_def raised_def)

lemma detect_fist_21:
  "21 \<le> length lms \<Longrightarrow> detect_fist lms = Inr (fist_rule lms)"
  by (simp add: detect_fist_def fist_rule_def raised_at_in_range Let_def)

lemmas detect_21 = detect_thumbs_up_21 detect_peace_sign_21 detect_rock_gesture_21
  detect_ok_sign_21 detect_pointing_21 detect_palm_open_21 detect_fist_21

lemma recognize_gesture_cascade:
  assumes "21 \<le> length landmarks"
  shows "recognize_gesture self landmarks handedness hand_center history_positions frame_width
         = cascade_spec self landmarks hand_center history_positions frame_width"
  using assms
  by (simp add: recognize_gesture_def cascade_spec_def detect_21 pose_rules_def
      getitem_in_range fallback_rule_def Let_def bind_r_def
      split: sum.splits option.splits)




lemma hand_thumbs_up_nth:
  "hand_thumbs_up ! 4 = \<lparr>lm_x = 0.5, lm_y = 0.3\<rparr>"
  "hand_thumbs_up ! 3 = \<lparr>lm_x = 0.5, lm_y = 0.5\<rparr>"
  "hand_thumbs_up ! 9 = \<lparr>lm_x = 0.5, lm_y = 0.6\<rparr>"
  by (simp_all add: hand_thumbs_up_def mk_hand_def)

lemma hand_middle_only_nth:
  "hand_middle_only ! 3 = \<lparr>lm_x = 0.5, lm_y = 0.5\<rparr>"
  "hand_middle_only ! 4 = \<lparr>lm_x = 0.4, lm_y = 0.5\<rparr>"
  "hand_middle_only ! 6 = \<lparr>lm_x = 0.5, lm_y = 0.5\<rparr>"
  "hand_middle_only ! 8 = \<lparr>lm_x = 0.5, lm_y = 0.5\<rparr>"
  "hand_middle_only ! 9 = \<lparr>lm_x = 0.5, lm_y = 0.5\<rparr>"
  "hand_middle_only ! 10 = \<lparr>lm_x = 0.5, lm_y = 0.5\<rparr>"
  "hand_middle_only ! 12 = \<lparr>lm_x = 0.5, lm_y = 0.3\<rparr>"
  "hand_middle_only ! 14 = \<lparr>lm_x = 0.5, lm_y = 0.5\<rparr>"
  "hand_middle_only ! 16 = \<lparr>lm_x = 0.5, lm_y = 0.5\<rparr>"
  "hand_middle_only ! 18 = \<lparr>lm_x = 0.5, lm_y = 0.5\<rparr>"
  "hand_middle_only ! 20 = \<lparr>lm_x = 0.5, lm_y = 0.5\<rparr>"
  by (simp_all add: hand_middle_only_def mk_hand_def)

subsection \<open>Geometry\<close>



subsection \<open>Swipe detection\<close>

text \<open>
  C7: with fewer samples in the history than the minimum the manager requires (3 for
  every manager \<^verbatim>\<open>__init__\<close> builds), the swipe classifier returns none, whatever the
  current centre, the samples and the frame width.
\<close>

theorem detect_swipe_short_history:
  "GestureManager_init hl = Inr self \<Longrightarrow> length history_positions < 3 \<Longrightarrow>
     detect_swipe self current_position history_positions frame_width = Inr None"
  by (auto simp: GestureManager_init_def detect_swipe_def split: if_splits)

text \<open>Two samples a thousand frame widths away from the centre: still none.\<close>

theorem detect_swipe_short_history_witness:
  "GestureManager_init 5 = Inr default_manager_state
   \<and> length [(1000::real, 0::real), (1000, 0)] < 3
   \<and> detect_swipe default_manager_state (0, 0) [(1000, 0), (1000, 0)] 1 = Inr None"
proof -
  have l: "length [(1000::real, 0::real), (1000, 0)] < 3" by simp
  from detect_swipe_short_history [OF default_manager_init l] default_manager_init l
  show ?thesis by simp
qed

text \<open>
  C6: for a manager as \<^verbatim>\<open>__init__\<close> builds it (threshold 0.1, minimum 3 samples), a history
  of at least 3 samples and a positive frame width, with \<open>dx\<close> and \<open>dy\<close> the
  displacement from the oldest retained sample (index 0) to the current centre, both
  divided by the frame width: the classifier returns SwipeRight when \<open>|dx| > 0.1\<close>,
  \<open>|dx| > |dy|\<close> and \<open>dx > 0\<close>, SwipeLeft when \<open>dx < 0\<close> instead; SwipeUp when
  \<open>|dy| > 0.1\<close>, \<open>|dy| > |dx|\<close> and \<open>dy < 0\<close>, SwipeDown when \<open>dy > 0\<close> instead; none
  when neither pair of inequalities holds, in particular when \<open>|dx| = |dy|\<close>.
\<close>

theorem detect_swipe_classifies:
  assumes init: "GestureManager_init hl = Inr self"
    and len: "3 \<le> length history_positions"
    and fw: "0 < frame_width"
  shows "let dx = (fst current_position - fst (history_positions ! 0)) / frame_width;
             dy = (snd current_position - snd (history_positions ! 0)) / frame_width;
             r = detect_swipe self current_position history_positions frame_width
         in (\<bar>dx\<bar> > 0.1 \<and> \<bar>dx\<bar> > \<bar>dy\<bar> \<and> dx > 0 \<longrightarrow> r = Inr (Some SWIPE_RIGHT))
          \<and> (\<bar>dx\<bar> > 0.1 \<and> \<bar>dx\<bar> > \<bar>dy\<bar> \<and> dx < 0 \<longrightarrow> r = Inr (Some SWIPE_LEFT))
          \<and> (\<bar>dy\<bar> > 0.1 \<and> \<bar>dy\<bar> > \<bar>dx\<bar> \<and> dy < 0 \<longrightarrow> r = Inr (Some SWIPE_UP))
          \<and> (\<bar>dy\<bar> > 0.1 \<and> \<bar>dy\<bar> > \<bar>dx\<bar> \<and> dy > 0 \<longrightarrow> r = Inr (Some SWIPE_DOWN))
          \<and> (\<not> (\<bar>dx\<bar> > 0.1 \<and> \<bar>dx\<bar> > \<bar>dy\<bar>) \<and> \<not> (\<bar>dy\<bar> > 0.1 \<and> \<bar>dy\<bar> > \<bar>dx\<bar>)
                \<longrightarrow> r = Inr None)
          \<and> (\<bar>dx\<bar> = \<bar>dy\<bar> \<longrightarrow> r = Inr None)"
proof -
  from init have thr: "swipe_threshold self = 0.1" and mn: "min_gesture_frames self = 3"
    by (simp_all add: default_manager)
  from len have g: "getitem history_positions 0 = Inr (history_positions ! 0)"
    by (cases history_positions) (simp_all add: getitem_def)
  from len have nl: "\<not> length history_positions < 3" by simp
  from fw have nz: "frame_width \<noteq> 0" by simp
  show ?thesis
    unfolding detect_swipe_def Let_def thr mn g
    using nl nz by auto
qed

text \<open>
  A centre 0.4 to the left of the oldest sample is a SwipeLeft; a centre 0.4 to the left
  and 0.4 below it is a tie, and none.
\<close>

theorem detect_swipe_classifies_witness:
  "GestureManager_init 5 = Inr default_manager_state
   \<and> 3 \<le> length [(0.9::real, 0.2::real), (0.8, 0.2), (0.7, 0.2)]
   \<and> detect_swipe default_manager_state (0.5, 0.3) [(0.9, 0.2), (0.8, 0.2), (0.7, 0.2)] 1
       = Inr (Some SWIPE_LEFT)
   \<and> detect_swipe default_manager_state (0.5, 0.6) [(0.9, 0.2), (0.8, 0.2), (0.7, 0.2)] 1
       = Inr None"
proof -
  have l: "3 \<le> length [(0.9::real, 0.2::real), (0.8, 0.2), (0.7, 0.2)]" by simp
  have f: "(0::real) < 1" by simp
  have a: "detect_swipe default_manager_state (0.5, 0.3) [(0.9, 0.2), (0.8, 0.2), (0.7, 0.2)] 1
       = Inr (Some SWIPE_LEFT)"
    using detect_swipe_classifies [OF default_manager_init l f, of "(0.5, 0.3)"]
    by (simp add: Let_def)
  have b: "detect_swipe default_manager_state (0.5, 0.6) [(0.9, 0.2), (0.8, 0.2), (0.7, 0.2)] 1
       = Inr None"
    using detect_swipe_classifies [OF default_manager_init l f, of "(0.5, 0.6)"]
    by (simp add: Let_def)
  from a b l default_manager_init show ?thesis by blast
qed

subsection \<open>The recognition cascade\<close>

text \<open>
  C2: on a 21-landmark observation \<^verbatim>\<open>recognize_gesture\<close> is the first match of the rules
  thumbs-up, peace, rock, OK-sign, pointing, palm, fist in this order, then the swipe
  check, then the pinch / open-hand fallback; and a landmark set with the thumb tip
  strictly above the thumb pip and the middle-finger base, and more than 0.05 away from
  the pip, is ThumbsUp whatever the handedness, centre, history and frame width.
\<close>

theorem recognize_gesture_order:
  assumes "length landmarks = 21"
  shows "recognize_gesture self landmarks handedness hand_center history_positions frame_width
           = cascade_spec self landmarks hand_center history_positions frame_width
       \<and> (lm_y (landmarks ! 4) < lm_y (landmarks ! 3)
            \<and> lm_y (landmarks ! 4) < lm_y (landmarks ! 9)
            \<and> calculate_distance (landmarks ! 4) (landmarks ! 3) > 0.05
          \<longrightarrow> recognize_gesture self landmarks handedness hand_center history_positions
                 frame_width = Inr THUMBS_UP)"
proof (intro conjI impI)
  show "recognize_gesture self landmarks handedness hand_center history_positions frame_width
           = cascade_spec self landmarks hand_center history_positions frame_width"
    using assms by (simp add: recognize_gesture_cascade)
next
  assume "lm_y (landmarks ! 4) < lm_y (landmarks ! 3)
            \<and> lm_y (landmarks ! 4) < lm_y (landmarks ! 9)
            \<and> calculate_distance (landmarks ! 4) (landmarks ! 3) > 0.05"
  then have "detect_thumbs_up landmarks = Inr True"
    using assms by (simp add: detect_thumbs_up_def getitem_in_range)
  then show "recognize_gesture self landmarks handedness hand_center history_positions
                 frame_width = Inr THUMBS_UP"
    by (simp add: recognize_gesture_def)
qed

text \<open>
  The thumbs-up hand with a history that is a SwipeLeft on its own: the pose wins.
\<close>

theorem recognize_gesture_order_witness:
  "length hand_thumbs_up = 21
   \<and> detect_swipe default_manager_state (0, 0) [(0.9, 0), (0.8, 0), (0.7, 0)] 1
       = Inr (Some SWIPE_LEFT)
   \<and> recognize_gesture default_manager_state hand_thumbs_up ''Right'' (0, 0)
       [(0.9, 0), (0.8, 0), (0.7, 0)] 1 = Inr THUMBS_UP"
proof -
  have l: "length hand_thumbs_up = 21"
    by (simp add: hand_thumbs_up_def mk_hand_def)
  have s: "detect_swipe default_manager_state (0, 0) [(0.9, 0), (0.8, 0), (0.7, 0)] 1
       = Inr (Some SWIPE_LEFT)"
    by (simp add: detect_swipe_def default_manager_state_def getitem_def)
  have d: "calculate_distance (hand_thumbs_up ! 4) (hand_thumbs_up ! 3) = 0.2"
    unfolding calculate_distance_def
    by (rule real_sqrt_unique) (simp_all add: hand_thumbs_up_nth power2_eq_square)
  have p: "lm_y (hand_thumbs_up ! 4) < lm_y (hand_thumbs_up ! 3)
            \<and> lm_y (hand_thumbs_up ! 4) < lm_y (hand_thumbs_up ! 9)
            \<and> calculate_distance (hand_thumbs_up ! 4) (hand_thumbs_up ! 3) > 0.05"
    unfolding d by (simp add: hand_thumbs_up_nth)
  from recognize_gesture_order [OF l, of default_manager_state "''Right''" "(0, 0)"
      "[(0.9, 0), (0.8, 0), (0.7, 0)]" 1] p l s
  show ?thesis by blast
qed



subsection \<open>The volume mapping\<close>

lemma deque_append_nonempty: "0 < n \<Longrightarrow> deque_append n xs v \<noteq> []"
  by (cases xs) (auto simp: deque_append_def Let_def)

lemma deque_append_room: "length xs < n \<Longrightarrow> deque_append n xs v = xs @ [v]"
  by (simp add: deque_append_def Let_def)

lemma deque_append_full:
  "length xs = n \<Longrightarrow> 0 < n \<Longrightarrow> deque_append n xs v = tl xs @ [v]"
  by (cases xs) (auto simp: deque_append_def Let_def)

lemma count_fingers_21:
  assumes "21 \<le> length lms"
  shows "count_fingers lms h =
     Inr ((if thumb_raised_by_x h lms then 1 else 0)
          + sum_bools [raised lms 8 6, raised lms 12 10, raised lms 16 14, raised lms 20 18])"
  using assms
  by (simp add: count_fingers_def fingers_tips_def fingers_pip_def getitem_in_range
      thumb_raised_by_x_def raised_def sum_bools_def Let_def)

text \<open>One hand of at least 21 landmarks with a label, on a controller whose deques have
  room for at least one sample: the step returns, and what it returns.\<close>

lemma process_frame_hand_21:
  assumes "21 \<le> length lms" and "hi \<noteq> []" and "0 < deque_maxlen self"
  shows "process_frame_hand self lms hi =
     Inr (self\<lparr>distance_history :=
                  deque_append (deque_maxlen self) (distance_history self)
                    (calculate_distance (lms ! 4) (lms ! 8)),
               fingers_history := deque_append (deque_maxlen self) (fingers_history self)
                  ((if thumb_raised_by_x (hi ! 0) lms then 1 else 0)
                   + sum_bools [raised lms 8 6, raised lms 12 10, raised lms 16 14,
                                raised lms 20 18]),
               set_volume_calls := set_volume_calls self @
                  [volume_of_window (deque_append (deque_maxlen self) (distance_history self)
                    (calculate_distance (lms ! 4) (lms ! 8)))]\<rparr>,
          volume_of_window (deque_append (deque_maxlen self) (distance_history self)
                    (calculate_distance (lms ! 4) (lms ! 8))))"
proof -
  from assms(2) have g: "getitem hi 0 = Inr (hi ! 0)"
    by (cases hi) (simp_all add: getitem_def)
  from assms(3) have ne: "deque_append (deque_maxlen self) (distance_history self)
                    (calculate_distance (lms ! 4) (lms ! 8)) \<noteq> []"
    by (rule deque_append_nonempty)
  show ?thesis
    using assms(1) ne
    by (simp add: process_frame_hand_def getitem_in_range g count_fingers_21 Let_def
        volume_of_window_def)
qed

lemma process_frame_single:
  "process_frame self [lms] [hi] =
     bind_r (process_frame_hand self lms hi) (\<lambda>r. Inr (fst r, Some (snd r)))"
  by (simp add: process_frame_def)

lemma sum_list_constant: "\<forall>x\<in>set xs. x = c \<Longrightarrow> sum_list xs = real (length xs) * c"
  by (induction xs) (simp_all add: algebra_simps)

lemma volume_of_window_low:
  assumes "w \<noteq> []" and "\<forall>x\<in>set w. x = 0.02"
  shows "volume_of_window w = 0"
proof -
  from assms(1) have "real (length w) \<noteq> 0" by simp
  then have "sum_list w / real (length w) = 0.02"
    using sum_list_constant [OF assms(2)] by simp
  then show ?thesis by (simp add: volume_of_window_def)
qed

lemma volume_of_window_high:
  assumes "w \<noteq> []" and "\<forall>x\<in>set w. x = 0.3"
  shows "volume_of_window w = 100"
proof -
  from assms(1) have "real (length w) \<noteq> 0" by simp
  then have "sum_list w / real (length w) = 0.3"
    using sum_list_constant [OF assms(2)] by simp
  then show ?thesis by (simp add: volume_of_window_def)
qed

text \<open>Whatever the hands of a frame are, a level that is returned is a clamped one.\<close>

lemma process_frame_hand_range:
  "process_frame_hand self lms hi = Inr (self', v) \<Longrightarrow> 0 \<le> v \<and> v \<le> 100"
  by (auto simp: process_frame_hand_def bind_r_def Let_def
      split: sum.splits if_splits)

lemma process_frame_loop_range:
  "process_frame_loop self hands vl = Inr (self', Some v) \<Longrightarrow>
     (\<forall>u. vl = Some u \<longrightarrow> 0 \<le> u \<and> u \<le> 100) \<Longrightarrow> 0 \<le> v \<and> v \<le> 100"
proof (induction self hands vl rule: process_frame_loop.induct)
  case (1 self volume_level)
  then show ?case by simp
next
  case (2 self hand_landmarks handedness_info rest volume_level)
  from "2.prems"(1) obtain r
    where r: "process_frame_hand self hand_landmarks handedness_info = Inr r"
      and l: "process_frame_loop (fst r) rest (Some (snd r)) = Inr (self', Some v)"
    by (auto simp: bind_r_def split: sum.splits)
  from r have "0 \<le> snd r \<and> snd r \<le> 100"
    using process_frame_hand_range [of self hand_landmarks handedness_info "fst r" "snd r"]
    by simp
  with "2.IH" [OF l] show ?case by simp
qed

lemma process_frame_range:
  "process_frame self mhl mh = Inr (self', Some v) \<Longrightarrow> 0 \<le> v \<and> v \<le> 100"
  using process_frame_loop_range [of self "zip mhl mh" None self' v]
  by (auto simp: process_frame_def split: if_splits)

lemma hand_pinch_distance: "calculate_distance (hand_pinch ! 4) (hand_pinch ! 8) = 0.02"
  unfolding calculate_distance_def
  by (rule real_sqrt_unique) (simp_all add: hand_pinch_def mk_hand_def power2_eq_square)

lemma hand_half_distance: "calculate_distance (hand_half ! 4) (hand_half ! 8) = 0.16"
  unfolding calculate_distance_def
  by (rule real_sqrt_unique) (simp_all add: hand_half_def mk_hand_def power2_eq_square)

text \<open>
  C8: a frame with one hand (21 landmarks, a handedness label) on a controller whose
  window holds at least one sample returns a level \<open>v\<close>. The new window is the old one
  with the thumb-index distance appended, the oldest sample dropped when the window
  was full; \<open>v\<close> is the mean of the new window mapped affinely from \<open>[0.02, 0.3]\<close> to
  \<open>[0, 100]\<close> and clamped; a window of 0.02 throughout gives 0 and one of 0.3 throughout
  gives 100. Every level any frame returns lies in \<open>[0, 100]\<close>.
\<close>

theorem process_frame_volume:
  assumes len: "length hand_landmarks = 21"
    and hi: "handedness_info \<noteq> []"
    and n: "0 < deque_maxlen self"
  shows "(\<exists>self' v. process_frame self [hand_landmarks] [handedness_info] = Inr (self', Some v)
          \<and> (let d = calculate_distance (hand_landmarks ! 4) (hand_landmarks ! 8);
                  w = distance_history self'
              in (length (distance_history self) < deque_maxlen self
                    \<longrightarrow> w = distance_history self @ [d])
               \<and> (length (distance_history self) = deque_maxlen self
                    \<longrightarrow> w = tl (distance_history self) @ [d])
               \<and> v = volume_of_window w
               \<and> ((\<forall>x\<in>set w. x = 0.02) \<longrightarrow> v = 0)
               \<and> ((\<forall>x\<in>set w. x = 0.3) \<longrightarrow> v = 100)))
       \<and> (\<forall>st hands infos st' u.
             process_frame st hands infos = Inr (st', Some u) \<longrightarrow> 0 \<le> u \<and> u \<le> 100)"
proof (intro conjI allI impI)
  define d where "d = calculate_distance (hand_landmarks ! 4) (hand_landmarks ! 8)"
  define w where "w = deque_append (deque_maxlen self) (distance_history self) d"
  from len have l: "21 \<le> length hand_landmarks" by simp
  have ne: "w \<noteq> []" unfolding w_def using n by (rule deque_append_nonempty)
  from process_frame_hand_21 [OF l hi n]
  obtain self' where pf: "process_frame self [hand_landmarks] [handedness_info]
                            = Inr (self', Some (volume_of_window w))"
    and dh: "distance_history self' = w"
    by (simp add: process_frame_single w_def d_def)
  have a: "length (distance_history self) < deque_maxlen self
             \<longrightarrow> w = distance_history self @ [d]"
    by (simp add: w_def deque_append_room)
  have b: "length (distance_history self) = deque_maxlen self
             \<longrightarrow> w = tl (distance_history self) @ [d]"
    using n by (simp add: w_def deque_append_full)
  have c: "(\<forall>x\<in>set w. x = 0.02) \<longrightarrow> volume_of_window w = 0"
    using ne by (simp add: volume_of_window_low)
  have e: "(\<forall>x\<in>set w. x = 0.3) \<longrightarrow> volume_of_window w = 100"
    using ne by (simp add: volume_of_window_high)
  from pf dh a b c e
  show "\<exists>self' v. process_frame self [hand_landmarks] [handedness_info] = Inr (self', Some v)
          \<and> (let d = calculate_distance (hand_landmarks ! 4) (hand_landmarks ! 8);
                  w = distance_history self'
              in (length (distance_history self) < deque_maxlen self
                    \<longrightarrow> w = distance_history self @ [d])
               \<and> (length (distance_history self) = deque_maxlen self
                    \<longrightarrow> w = tl (distance_history self) @ [d])
               \<and> v = volume_of_window w
               \<and> ((\<forall>x\<in>set w. x = 0.02) \<longrightarrow> v = 0)
               \<and> ((\<forall>x\<in>set w. x = 0.3) \<longrightarrow> v = 100))"
    unfolding Let_def d_def [symmetric] by blast
next
  fix st hands infos st' and u :: real
  assume "process_frame st hands infos = Inr (st', Some u)"
  then show "0 \<le> u" "u \<le> 100" using process_frame_range by blast+
qed

text \<open>
  A full window with 0.3 at its left end and a pinch of 0.02: the 0.3 is dropped, the
  window is 0.02 throughout and the level is 0.
\<close>

theorem process_frame_volume_witness:
  "length hand_pinch = 21 \<and> [''Right''] \<noteq> [] \<and> 0 < deque_maxlen controller_low
   \<and> (\<exists>self'. process_frame controller_low [hand_pinch] [[''Right'']] = Inr (self', Some 0)
          \<and> distance_history self' = [0.02, 0.02, 0.02, 0.02, 0.02])"
proof -
  have l: "length hand_pinch = 21" by (simp add: hand_pinch_def mk_hand_def)
  have h: "[''Right''] \<noteq> []" by simp
  have n: "0 < deque_maxlen controller_low" by (simp add: controller_low_def)
  from process_frame_volume [OF l h n]
  obtain self' v
    where pf: "process_frame controller_low [hand_pinch] [[''Right'']] = Inr (self', Some v)"
      and full: "length (distance_history controller_low) = deque_maxlen controller_low
                \<longrightarrow> distance_history self' = tl (distance_history controller_low) @ [0.02]"
      and low: "(\<forall>x\<in>set (distance_history self'). x = 0.02) \<longrightarrow> v = 0"
    unfolding Let_def hand_pinch_distance by blast
  from full have w: "distance_history self' = [0.02, 0.02, 0.02, 0.02, 0.02]"
    by (simp add: controller_low_def)
  with low have "v = 0" by simp
  with pf w l h n show ?thesis by blast
qed

text \<open>
  C1, as the claim states it, fails: there is no minimum-change gate. The same hand shown
  in two consecutive frames maps to 50 both times, a change of 0 and so below the
  threshold of 2.0 the configuration declares, and the second frame still returns the
  level and calls the actuator again.
\<close>

theorem process_frame_gate_counterexample:
  "process_frame controller0 [hand_half] [[''Right'']] = Inr (controller1, Some 50)
   \<and> process_frame controller1 [hand_half] [[''Right'']] = Inr (controller2, Some 50)
   \<and> set_volume_calls controller1 = [50]
   \<and> set_volume_calls controller2 = [50, 50]
   \<and> VolumeConfig_init [] = Inr default_volume_config
   \<and> \<bar>50 - 50\<bar> < min_change_threshold default_volume_config"
proof -
  have l: "21 \<le> length hand_half" by (simp add: hand_half_def mk_hand_def)
  have h: "[''Right''] \<noteq> []" by simp
  have t: "thumb_raised_by_x ''Right'' hand_half"
    by (simp add: thumb_raised_by_x_def hand_half_def mk_hand_def)
  have r: "sum_bools [raised hand_half 8 6, raised hand_half 12 10, raised hand_half 16 14,
                      raised hand_half 20 18] = 0"
    by (simp add: sum_bools_def raised_def hand_half_def mk_hand_def)
  have a: "process_frame controller0 [hand_half] [[''Right'']] = Inr (controller1, Some 50)"
    using process_frame_hand_21 [OF l h, of controller0]
    by (simp add: process_frame_single hand_half_distance t r controller0_def controller1_def
        deque_append_def volume_of_window_def)
  have b: "process_frame controller1 [hand_half] [[''Right'']] = Inr (controller2, Some 50)"
    using process_frame_hand_21 [OF l h, of controller1]
    by (simp add: process_frame_single hand_half_distance t r controller1_def controller2_def
        deque_append_def volume_of_window_def)
  have c: "VolumeConfig_init [] = Inr default_volume_config"
    by (simp add: VolumeConfig_init_def kwarg_def default_volume_config_def)
  from a b c show ?thesis
    by (simp add: controller1_def controller2_def default_volume_config_def)
qed

text \<open>
  C1, amended: \<^verbatim>\<open>VolumeConfig\<close> declares \<open>min_change_threshold\<close> with default 2.0, but
  the volume mapping never reads it and applies no gate. Every frame with a hand (21
  landmarks, a label; a window of capacity at least 1) returns the newly mapped level
  and calls the actuator with it; the level is determined by the distance window alone,
  whatever was emitted before, and no last-emitted baseline is kept.
\<close>

theorem process_frame_no_gate:
  assumes len: "length hand_landmarks = 21"
    and hi: "handedness_info \<noteq> []"
    and n: "0 < deque_maxlen self"
  shows "VolumeConfig_init [] = Inr default_volume_config
       \<and> min_change_threshold default_volume_config = 2.0
       \<and> (\<exists>self' v. process_frame self [hand_landmarks] [handedness_info] = Inr (self', Some v)
          \<and> v = volume_of_window (distance_history self')
          \<and> set_volume_calls self' = set_volume_calls self @ [v]
          \<and> (\<forall>calls. \<exists>self''.
                process_frame (self\<lparr>set_volume_calls := calls\<rparr>) [hand_landmarks]
                  [handedness_info] = Inr (self'', Some v)
                \<and> set_volume_calls self'' = calls @ [v]))"
proof -
  from len have l: "21 \<le> length hand_landmarks" by simp
  have m: "0 < deque_maxlen (self\<lparr>set_volume_calls := calls\<rparr>)" for calls
    using n by simp
  have c: "VolumeConfig_init [] = Inr default_volume_config"
    by (simp add: VolumeConfig_init_def kwarg_def default_volume_config_def)
  have t: "min_change_threshold default_volume_config = 2.0"
    by (simp add: default_volume_config_def)
  have "\<exists>self' v. process_frame self [hand_landmarks] [handedness_info] = Inr (self', Some v)
          \<and> v = volume_of_window (distance_history self')
          \<and> set_volume_calls self' = set_volume_calls self @ [v]
          \<and> (\<forall>calls. \<exists>self''.
                process_frame (self\<lparr>set_volume_calls := calls\<rparr>) [hand_landmarks]
                  [handedness_info] = Inr (self'', Some v)
                \<and> set_volume_calls self'' = calls @ [v])"
    using process_frame_hand_21 [OF l hi n] process_frame_hand_21 [OF l hi m]
    by (simp add: process_frame_single)
  with c t show ?thesis by blast
qed

text \<open>The second of two identical frames: 50 is returned and sent again.\<close>

theorem process_frame_no_gate_witness:
  "length hand_half = 21 \<and> [''Right''] \<noteq> [] \<and> 0 < deque_maxlen controller1
   \<and> (\<exists>self'. process_frame controller1 [hand_half] [[''Right'']] = Inr (self', Some 50)
         \<and> set_volume_calls self' = [50, 50])"
proof -
  have l: "length hand_half = 21" by (simp add: hand_half_def mk_hand_def)
  have h: "[''Right''] \<noteq> []" by simp
  have n: "0 < deque_maxlen controller1" by (simp add: controller1_def)
  from process_frame_no_gate [OF l h n]
  obtain self' v
    where pf: "process_frame controller1 [hand_half] [[''Right'']] = Inr (self', Some v)"
      and v: "v = volume_of_window (distance_history self')"
      and c: "set_volume_calls self' = set_volume_calls controller1 @ [v]"
    by blast
  have "21 \<le> length hand_half" using l by simp
  from process_frame_hand_21 [OF this h n] pf
  have "distance_history self' = [0.16, 0.16]"
    by (auto simp: process_frame_single hand_half_distance controller1_def deque_append_def)
  with v have "v = 50" by (simp add: volume_of_window_def)
  with pf c l h n show ?thesis by (simp add: controller1_def)
qed

subsection \<open>The position history\<close>

text \<open>
  C3, as the claim states it, fails: \<^verbatim>\<open>recognize_gesture\<close> appends nothing. After a call
  with the history \<open>[(0.1, 0.1)]\<close> and the centre \<open>(0.5, 0.5)\<close> the history is still
  \<open>[(0.1, 0.1)]\<close>, not \<open>[(0.1, 0.1), (0.5, 0.5)]\<close>, and the manager's own
  \<open>hand_positions\<close> is still empty.
\<close>

theorem recognize_gesture_history_counterexample:
  "recognize_gesture_st (default_manager_state, [(0.1, 0.1)]) hand_middle_only ''Left''
       (0.5, 0.5) 640
     = (Inr UNKNOWN, default_manager_state, [(0.1, 0.1)])
   \<and> deque_append (history_length default_manager_state) [(0.1, 0.1)] (0.5, 0.5)
       = [(0.1::real, 0.1::real), (0.5, 0.5)]
   \<and> snd (snd (recognize_gesture_st (default_manager_state, [(0.1, 0.1)]) hand_middle_only
       ''Left'' (0.5, 0.5) 640))
       \<noteq> deque_append (history_length default_manager_state) [(0.1, 0.1)] (0.5, 0.5)
   \<and> hand_positions (fst (snd (recognize_gesture_st (default_manager_state, [(0.1, 0.1)])
       hand_middle_only ''Left'' (0.5, 0.5) 640)))
       \<noteq> deque_append (history_length default_manager_state)
            (hand_positions default_manager_state) (0.5, 0.5)"
proof -
  have l: "21 \<le> length hand_middle_only"
    by (simp add: hand_middle_only_def mk_hand_def)
  have d: "calculate_distance (hand_middle_only ! 4) (hand_middle_only ! 8) = 0.1"
    unfolding calculate_distance_def
    by (rule real_sqrt_unique) (simp_all add: hand_middle_only_nth power2_eq_square)
  have r: "raised hand_middle_only 8 6 = False" "raised hand_middle_only 12 10 = True"
    "raised hand_middle_only 16 14 = False" "raised hand_middle_only 20 18 = False"
    "raised hand_middle_only 4 3 = False"
    by (simp_all add: raised_def hand_middle_only_nth)
  have t: "\<not> thumbs_up_rule hand_middle_only"
    by (simp add: thumbs_up_rule_def hand_middle_only_nth)
  have m: "first_match pose_rules hand_middle_only = None"
    by (simp add: pose_rules_def t peace_rule_def rock_rule_def ok_sign_rule_def
        pointing_rule_def palm_rule_def fist_rule_def r d sum_bools_def)
  have sw: "detect_swipe default_manager_state (0.5, 0.5) [(0.1, 0.1)] 640 = Inr None"
    by (simp add: detect_swipe_def default_manager_state_def)
  have f: "fallback_rule hand_middle_only = UNKNOWN"
    by (simp add: fallback_rule_def d)
  have g: "recognize_gesture default_manager_state hand_middle_only ''Left'' (0.5, 0.5)
             [(0.1, 0.1)] 640 = Inr UNKNOWN"
    by (simp only: recognize_gesture_cascade [OF l] cascade_spec_def m sw f
        option.case sum.case)
  have e: "recognize_gesture_st (default_manager_state, [(0.1, 0.1)]) hand_middle_only ''Left''
       (0.5, 0.5) 640
     = (Inr UNKNOWN, default_manager_state, [(0.1, 0.1)])"
    by (simp only: recognize_gesture_st_def g prod.case)
  have q: "deque_append (history_length default_manager_state) [(0.1, 0.1)] (0.5, 0.5)
       = [(0.1::real, 0.1::real), (0.5, 0.5)]"
    by (simp add: deque_append_def default_manager_state_def)
  have q': "deque_append (history_length default_manager_state)
            (hand_positions default_manager_state) (0.5, 0.5) = [(0.5::real, 0.5::real)]"
    by (simp add: deque_append_def default_manager_state_def)
  show ?thesis
    unfolding e q q' by (simp add: default_manager_state_def)
qed

text \<open>
  C3, amended: \<^verbatim>\<open>recognize_gesture\<close> reads the position history and never changes it.
  After every call, whichever branch produced the label and also when the call raises,
  the manager (with its \<open>hand_positions\<close>) and the history passed in are exactly as
  before; appending the current hand centre is left to the caller.
\<close>

theorem recognize_gesture_history_unchanged:
  "snd (recognize_gesture_st (self, history_positions) landmarks handedness hand_center
          frame_width) = (self, history_positions)
   \<and> fst (recognize_gesture_st (self, history_positions) landmarks handedness hand_center
          frame_width)
       = recognize_gesture self landmarks handedness hand_center history_positions frame_width"
  by (simp add: recognize_gesture_st_def)

subsection \<open>The thumb tests\<close>

lemma raised_reflect:
  "t < length lms \<Longrightarrow> p < length lms \<Longrightarrow> raised (map reflect_x lms) t p = raised lms t p"
  by (simp add: raised_def reflect_x_def)

lemma thumb_raised_by_x_reflect:
  "21 \<le> length lms \<Longrightarrow>
     thumb_raised_by_x (swap_handedness h) (map reflect_x lms) = thumb_raised_by_x h lms"
  by (auto simp: thumb_raised_by_x_def swap_handedness_def reflect_x_def)

text \<open>
  C5, as the claim states it, fails: \<^verbatim>\<open>detect_palm_open\<close> tests the thumb by \<open>y\<close>. With
  three fingers raised and the thumb tip straight above its pip (equal \<open>x\<close>, so not
  raised by the \<open>x\<close> test for either hand) it reports an open palm, which the palm rule
  with the \<open>x\<close> test does not, for \<open>Right\<close> or for \<open>Left\<close>.
\<close>

theorem thumb_tests_counterexample:
  "detect_palm_open hand_palm = Inr True
   \<and> \<not> palm_rule_by_x ''Right'' hand_palm
   \<and> \<not> palm_rule_by_x ''Left'' hand_palm
   \<and> lm_x (hand_palm ! 4) = lm_x (hand_palm ! 3)
   \<and> lm_y (hand_palm ! 4) < lm_y (hand_palm ! 3)"
proof -
  have l: "21 \<le> length hand_palm" by (simp add: hand_palm_def mk_hand_def)
  have r: "raised hand_palm 8 6" "raised hand_palm 12 10" "raised hand_palm 16 14"
    "\<not> raised hand_palm 20 18" "raised hand_palm 4 3"
    by (simp_all add: raised_def hand_palm_def mk_hand_def)
  have x: "lm_x (hand_palm ! 4) = lm_x (hand_palm ! 3)"
    "lm_y (hand_palm ! 4) < lm_y (hand_palm ! 3)"
    by (simp_all add: hand_palm_def mk_hand_def)
  from x have t: "\<not> thumb_raised_by_x h hand_palm" for h
    by (simp add: thumb_raised_by_x_def)
  show ?thesis
    using x by (simp add: detect_palm_open_21 [OF l] palm_rule_def palm_rule_by_x_def r t
        sum_bools_def)
qed


text \<open>
  C5, amended: on 21 landmarks, \<^verbatim>\<open>count_fingers\<close> of the volume controller tests the thumb
  by \<open>x\<close>, tip against pip, mirrored by handedness (tip left of pip for \<open>Right\<close>, right
  of it otherwise), and counts the four fingers by \<open>y\<close>; \<^verbatim>\<open>detect_palm_open\<close> of the
  gesture manager tests the thumb by \<open>y\<close> (tip above pip), whatever the hand. Reflecting
  every \<open>x\<close> and swapping the label changes neither result.
\<close>

theorem thumb_tests:
  assumes "length landmarks = 21"
  shows "count_fingers landmarks handedness =
           Inr ((if thumb_raised_by_x handedness landmarks then 1 else 0)
                + sum_bools [raised landmarks 8 6, raised landmarks 12 10,
                             raised landmarks 16 14, raised landmarks 20 18])
       \<and> count_fingers (map reflect_x landmarks) (swap_handedness handedness)
           = count_fingers landmarks handedness
       \<and> detect_palm_open landmarks =
           Inr (sum_bools [raised landmarks 8 6, raised landmarks 12 10,
                           raised landmarks 16 14, raised landmarks 20 18,
                           lm_y (landmarks ! 4) < lm_y (landmarks ! 3)] \<ge> 4)
       \<and> detect_palm_open (map reflect_x landmarks) = detect_palm_open landmarks"
proof -
  from assms have l: "21 \<le> length landmarks" and l': "21 \<le> length (map reflect_x landmarks)"
    by simp_all
  have a: "count_fingers landmarks handedness =
           Inr ((if thumb_raised_by_x handedness landmarks then 1 else 0)
                + sum_bools [raised landmarks 8 6, raised landmarks 12 10,
                             raised landmarks 16 14, raised landmarks 20 18])"
    using l by (rule count_fingers_21)
  have b: "count_fingers (map reflect_x landmarks) (swap_handedness handedness)
           = count_fingers landmarks handedness"
    using assms
    by (simp add: count_fingers_21 [OF l] count_fingers_21 [OF l'] raised_reflect
        thumb_raised_by_x_reflect [OF l])
  have c: "detect_palm_open landmarks =
           Inr (sum_bools [raised landmarks 8 6, raised landmarks 12 10,
                           raised landmarks 16 14, raised landmarks 20 18,
                           lm_y (landmarks ! 4) < lm_y (landmarks ! 3)] \<ge> 4)"
    using l by (simp add: detect_palm_open_21 palm_rule_def raised_def)
  have d: "detect_palm_open (map reflect_x landmarks) = detect_palm_open landmarks"
    using assms
    by (simp add: detect_palm_open_21 [OF l] detect_palm_open_21 [OF l'] palm_rule_def
        raised_reflect)
  from a b c d show ?thesis by blast
qed

text \<open>
  The hand with the thumb tip left of its pip and nothing raised: one finger as a right
  hand, none as a left hand, and one again for the mirrored left hand.
\<close>

theorem thumb_tests_witness:
  "length hand_half = 21
   \<and> count_fingers hand_half ''Right'' = Inr 1
   \<and> count_fingers hand_half ''Left'' = Inr 0
   \<and> count_fingers (map reflect_x hand_half) ''Left'' = Inr 1
   \<and> detect_palm_open hand_half = Inr False"
proof -
  have l: "length hand_half = 21" by (simp add: hand_half_def mk_hand_def)
  have r: "\<not> raised hand_half 8 6" "\<not> raised hand_half 12 10" "\<not> raised hand_half 16 14"
    "\<not> raised hand_half 20 18"
    by (simp_all add: raised_def hand_half_def mk_hand_def)
  have t: "thumb_raised_by_x ''Right'' hand_half" "\<not> thumb_raised_by_x ''Left'' hand_half"
    "\<not> lm_y (hand_half ! 4) < lm_y (hand_half ! 3)"
    by (simp_all add: thumb_raised_by_x_def hand_half_def mk_hand_def)
  from thumb_tests [OF l, of "''Right''"] thumb_tests [OF l, of "''Left''"] l
  show ?thesis
    by (simp add: r t sum_bools_def swap_handedness_def)
qed

subsection \<open>Configuration\<close>

text \<open>
  C4, as the claim states it, fails: a configuration with a negative minimum distance, a
  maximum distance below the minimum and a window size of 0 is constructed without
  error.
\<close>

theorem VolumeConfig_init_counterexample:
  "VolumeConfig_init [(''min_distance'', - 1), (''max_distance'', - 2), (''smoothing_window'', 0)]
     = Inr \<lparr>min_distance = - 1, max_distance = - 2, smoothing_window = 0, sensitivity = 1,
            min_change_threshold = 2\<rparr>
   \<and> \<not> config_in_bounds \<lparr>min_distance = - 1, max_distance = - 2, smoothing_window = 0,
            sensitivity = 1, min_change_threshold = 2\<rparr>"
  by (simp add: VolumeConfig_init_def VolumeConfig_fields_def kwarg_def config_in_bounds_def)

text \<open>
  C4, amended: constructing a \<^verbatim>\<open>VolumeConfig\<close> validates no value. For every minimum
  distance, maximum distance and window size, in bounds or not, construction succeeds
  and stores the values as given; construction succeeds exactly when every keyword is a
  field name, and the only error it raises is the TypeError for a keyword that is not.
\<close>

theorem VolumeConfig_init_no_validation:
  "VolumeConfig_init [(''min_distance'', mn), (''max_distance'', mx), (''smoothing_window'', w)]
     = Inr \<lparr>min_distance = mn, max_distance = mx, smoothing_window = w, sensitivity = 1,
            min_change_threshold = 2\<rparr>
   \<and> ((\<exists>c. VolumeConfig_init kwargs = Inr c)
        = (set (map fst kwargs) \<subseteq> set VolumeConfig_fields))
   \<and> ((\<exists>e. VolumeConfig_init kwargs = Inl e) = (VolumeConfig_init kwargs = Inl TypeError))"
  by (auto simp: VolumeConfig_init_def VolumeConfig_fields_def kwarg_def list_ex_iff)

text \<open>A minimum above the maximum and a negative window size are stored as given.\<close>

theorem VolumeConfig_init_no_validation_witness:
  "VolumeConfig_init [(''min_distance'', 0.5), (''max_distance'', 0.1), (''smoothing_window'', - 3)]
     = Inr \<lparr>min_distance = 0.5, max_distance = 0.1, smoothing_window = - 3, sensitivity = 1,
            min_change_threshold = 2\<rparr>"
  using VolumeConfig_init_no_validation [of "0.5" "0.1" "- 3" "[]"] by simp

end
